theory Spec2Isabelle
  imports Complex_Main
begin

section \<open>Parsed JSON values and the Python operations the converter applies to them\<close>

text \<open>
  The converter of \<^verbatim>\<open>core/overpass_client.py\<close> works on the value that
  \<^verbatim>\<open>response.json()\<close> returns: dictionaries with string keys, lists, strings,
  integers, floats, booleans and \<^verbatim>\<open>None\<close>. A dictionary is an association list whose
  keys are distinct (a Python dictionary holds each key once); a float is its exact
  rational value (the non-finite floats, which JSON proper cannot express, are left out).
\<close>

datatype json =
    JNull
  | JBool bool
  | JInt int
  | JFloat rat
  | JStr string
  | JArr "json list"
  | JObj "(string \<times> json) list"

text \<open>The exceptions that the operations on a parsed value can raise.\<close>

datatype error = KeyError | TypeError | AttributeError

text \<open>Sequencing of two steps, the first of which may raise.\<close>

definition and_then :: "error + 'a \<Rightarrow> ('a \<Rightarrow> error + 'b) \<Rightarrow> error + 'b" where
  "and_then r f = (case r of Inl e \<Rightarrow> Inl e | Inr x \<Rightarrow> f x)"

text \<open>\<^verbatim>\<open>obj.get(key, default)\<close>: only a dictionary has the method.\<close>

definition py_get :: "json \<Rightarrow> string \<Rightarrow> json \<Rightarrow> error + json" where
  "py_get obj key dflt =
     (case obj of
        JObj kvs \<Rightarrow> Inr (case map_of kvs key of None \<Rightarrow> dflt | Some v \<Rightarrow> v)
      | _ \<Rightarrow> Inl AttributeError)"

text \<open>
  \<^verbatim>\<open>obj[key]\<close> with a string key: a missing key of a dictionary is a
  \<^verbatim>\<open>KeyError\<close>; a list or a string takes integer indices only, and the other values
  cannot be subscripted, which are \<^verbatim>\<open>TypeError\<close>s.
\<close>

definition py_getitem :: "json \<Rightarrow> string \<Rightarrow> error + json" where
  "py_getitem obj key =
     (case obj of
        JObj kvs \<Rightarrow> (case map_of kvs key of None \<Rightarrow> Inl KeyError | Some v \<Rightarrow> Inr v)
      | _ \<Rightarrow> Inl TypeError)"

text \<open>\<^verbatim>\<open>needle in hay\<close> for two strings: \<^verbatim>\<open>needle\<close> occurs as a contiguous part.\<close>

fun is_substring :: "string \<Rightarrow> string \<Rightarrow> bool" where
  "is_substring k [] = (k = [])"
| "is_substring k (c # cs) = (take (length k) (c # cs) = k \<or> is_substring k cs)"

text \<open>
  \<^verbatim>\<open>key in obj\<close> with a string key: key membership for a dictionary, element
  membership for a list, containment for a string, and a \<^verbatim>\<open>TypeError\<close> for a
  value that is not a container.
\<close>

definition py_in :: "string \<Rightarrow> json \<Rightarrow> error + bool" where
  "py_in key obj =
     (case obj of
        JObj kvs \<Rightarrow> Inr (map_of kvs key \<noteq> None)
      | JArr xs \<Rightarrow> Inr (List.member xs (JStr key))
      | JStr s \<Rightarrow> Inr (is_substring key s)
      | _ \<Rightarrow> Inl TypeError)"

text \<open>
  The items a \<^verbatim>\<open>for\<close> loop visits: the elements of a list, the characters of a
  string, the keys of a dictionary; anything else is not iterable.
\<close>

definition py_iter :: "json \<Rightarrow> error + json list" where
  "py_iter v =
     (case v of
        JArr xs \<Rightarrow> Inr xs
      | JStr s \<Rightarrow> Inr (map (\<lambda>c. JStr [c]) s)
      | JObj kvs \<Rightarrow> Inr (map (\<lambda>kv. JStr (fst kv)) kvs)
      | _ \<Rightarrow> Inl TypeError)"

text \<open>
  Python's \<^verbatim>\<open>==\<close>. Booleans, integers and floats compare by numeric value
  (\<^verbatim>\<open>True == 1 == 1.0\<close>), lists element by element, dictionaries by having the same
  keys with equal values; values of different kinds are unequal.
\<close>

fun num_val :: "json \<Rightarrow> rat option" where
  "num_val (JBool b) = Some (if b then 1 else 0)"
| "num_val (JInt i) = Some (of_int i)"
| "num_val (JFloat r) = Some r"
| "num_val _ = None"

fun py_eq :: "json \<Rightarrow> json \<Rightarrow> bool"
  and py_eq_list :: "json list \<Rightarrow> json list \<Rightarrow> bool"
  and py_eq_items :: "(string \<times> json) list \<Rightarrow> (string \<times> json) list \<Rightarrow> bool" where
  "py_eq JNull b = (b = JNull)"
| "py_eq (JBool p) b = (num_val b = Some (if p then 1 else 0))"
| "py_eq (JInt i) b = (num_val b = Some (of_int i))"
| "py_eq (JFloat r) b = (num_val b = Some r)"
| "py_eq (JStr s) b = (b = JStr s)"
| "py_eq (JArr xs) b = (case b of JArr ys \<Rightarrow> py_eq_list xs ys | _ \<Rightarrow> False)"
| "py_eq (JObj kvs) b =
     (case b of JObj kvs' \<Rightarrow> length kvs = length kvs' \<and> py_eq_items kvs kvs' | _ \<Rightarrow> False)"
| "py_eq_list [] ys = (ys = [])"
| "py_eq_list (x # xs) ys = (case ys of [] \<Rightarrow> False | y # ys' \<Rightarrow> py_eq x y \<and> py_eq_list xs ys')"
| "py_eq_items [] kvs' = True"
| "py_eq_items (kv # kvs) kvs' =
     ((case map_of kvs' (fst kv) of None \<Rightarrow> False | Some w \<Rightarrow> py_eq (snd kv) w)
      \<and> py_eq_items kvs kvs')"

text \<open>A list or a dictionary cannot be a dictionary key.\<close>

fun hashable :: "json \<Rightarrow> bool" where
  "hashable (JArr _) = False"
| "hashable (JObj _) = False"
| "hashable _ = True"


section \<open>Formatting an identifier\<close>

text \<open>
  The feature identifiers are f-strings, \<^verbatim>\<open>f"node/{node.get('id')}"\<close>, so the value
  is formatted as \<^verbatim>\<open>str\<close> does: an integer in decimal, a string as it is,
  \<^verbatim>\<open>None\<close>, \<^verbatim>\<open>True\<close> and \<^verbatim>\<open>False\<close> by name. What Python prints
  for a float, a list or a dictionary is not modelled: the function \<open>repr\<close> that the
  converters take stands for it.
\<close>

fun str_nat :: "nat \<Rightarrow> string" where
  "str_nat n =
     (if n < 10 then [''0123456789'' ! n]
      else str_nat (n div 10) @ [''0123456789'' ! (n mod 10)])"

declare str_nat.simps [simp del]

definition str_int :: "int \<Rightarrow> string" where
  "str_int i = (if i < 0 then CHR ''-'' # str_nat (nat (- i)) else str_nat (nat i))"

definition py_str :: "(json \<Rightarrow> string) \<Rightarrow> json \<Rightarrow> string" where
  "py_str repr v =
     (case v of
        JNull \<Rightarrow> ''None''
      | JBool b \<Rightarrow> (if b then ''True'' else ''False'')
      | JInt i \<Rightarrow> str_int i
      | JStr s \<Rightarrow> s
      | _ \<Rightarrow> repr v)"

section \<open>The converter\<close>

text \<open>
  The dictionary literal that both converters return: a GeoJSON feature with its
  identifier, geometry type, coordinates and properties.
\<close>

definition geojson_feature :: "string \<Rightarrow> string \<Rightarrow> json \<Rightarrow> json \<Rightarrow> json" where
  "geojson_feature fid geometry_type geometry_coords properties =
     JObj [(''type'', JStr ''Feature''),
           (''id'', JStr fid),
           (''geometry'', JObj [(''type'', JStr geometry_type),
                                (''coordinates'', geometry_coords)]),
           (''properties'', properties)]"

subsection \<open>\<^verbatim>\<open>convert_node_to_feature\<close>\<close>

definition convert_node_to_feature :: "(json \<Rightarrow> string) \<Rightarrow> json \<Rightarrow> error + json option" where
  "convert_node_to_feature repr node =
     and_then (py_get node ''lat'' JNull) (\<lambda>lat.
     and_then (py_get node ''lon'' JNull) (\<lambda>lon.
       if lat = JNull \<or> lon = JNull then Inr None
       else
         and_then (py_get node ''id'' JNull) (\<lambda>node_id.
         and_then (py_get node ''tags'' (JObj [])) (\<lambda>tags.
           Inr (Some (geojson_feature (''node/'' @ py_str repr node_id) ''Point''
                        (JArr [lon, lat]) tags))))))"

subsection \<open>The node lookup\<close>

text \<open>
  The dictionary \<^verbatim>\<open>nodes\<close> maps a node identifier to the node's
  \<^verbatim>\<open>{"lat": ..., "lon": ...}\<close>, here the pair (lat, lon). It is a list of bindings,
  the newest first: a lookup takes the first binding whose key is equal (\<^verbatim>\<open>==\<close>) to
  the one asked for, so a later store under an equal key replaces the earlier one, as
  the assignment \<^verbatim>\<open>nodes[key] = value\<close> does.
\<close>

type_synonym node_index = "(json \<times> json \<times> json) list"

fun nodes_find :: "json \<Rightarrow> node_index \<Rightarrow> (json \<times> json) option" where
  "nodes_find k [] = None"
| "nodes_find k (entry # rest) =
     (if py_eq (fst entry) k then Some (snd entry) else nodes_find k rest)"

text \<open>
  The first loop of \<^verbatim>\<open>convert_overpass_to_geojson\<close>. In the assignment the right-hand
  side is evaluated first, then \<^verbatim>\<open>element["id"]\<close>, then the store, which wants a
  hashable key.
\<close>

fun index_nodes :: "json list \<Rightarrow> node_index \<Rightarrow> error + node_index" where
  "index_nodes [] nodes = Inr nodes"
| "index_nodes (element # rest) nodes =
     and_then (py_get element ''type'' JNull) (\<lambda>element_type.
       if py_eq element_type (JStr ''node'') then
         and_then (py_get element ''lat'' JNull) (\<lambda>lat.
         and_then (py_get element ''lon'' JNull) (\<lambda>lon.
         and_then (py_getitem element ''id'') (\<lambda>node_id.
           if hashable node_id then index_nodes rest ((node_id, lat, lon) # nodes)
           else Inl TypeError)))
       else index_nodes rest nodes)"

subsection \<open>\<^verbatim>\<open>convert_way_to_feature\<close>\<close>

text \<open>The list comprehension over the embedded geometry.\<close>

fun geometry_coordinates :: "json list \<Rightarrow> error + json list" where
  "geometry_coordinates [] = Inr []"
| "geometry_coordinates (n # ns) =
     and_then (py_getitem n ''lon'') (\<lambda>lon.
     and_then (py_getitem n ''lat'') (\<lambda>lat.
     and_then (geometry_coordinates ns) (\<lambda>coordinates.
       Inr (JArr [lon, lat] # coordinates))))"

text \<open>The loop over the referenced node identifiers.\<close>

fun node_coordinates :: "json list \<Rightarrow> node_index \<Rightarrow> json list \<Rightarrow> error + json list" where
  "node_coordinates [] nodes coordinates = Inr coordinates"
| "node_coordinates (node_id # rest) nodes coordinates =
     (if \<not> hashable node_id then Inl TypeError
      else case nodes_find node_id nodes of
             None \<Rightarrow> node_coordinates rest nodes coordinates
           | Some node_data \<Rightarrow>
               node_coordinates rest nodes
                 (coordinates @ [JArr [snd node_data, fst node_data]]))"

text \<open>The coordinates of a way: from its geometry, else from its nodes, else none.\<close>

definition way_coordinates :: "json \<Rightarrow> node_index \<Rightarrow> error + json list" where
  "way_coordinates way nodes =
     and_then (py_in ''geometry'' way) (\<lambda>has_geometry.
       if has_geometry then
         and_then (py_getitem way ''geometry'') (\<lambda>geometry.
         and_then (py_iter geometry) geometry_coordinates)
       else
         and_then (py_in ''nodes'' way) (\<lambda>has_nodes.
           if has_nodes then
             and_then (py_getitem way ''nodes'') (\<lambda>node_ids.
             and_then (py_iter node_ids) (\<lambda>ids. node_coordinates ids nodes []))
           else Inr []))"

text \<open>Python's \<^verbatim>\<open>or\<close> and \<^verbatim>\<open>and\<close> evaluate the right operand only when needed.\<close>

definition py_or :: "error + bool \<Rightarrow> error + bool \<Rightarrow> error + bool" where
  "py_or a b = and_then a (\<lambda>x. if x then Inr True else b)"

definition py_and :: "error + bool \<Rightarrow> error + bool \<Rightarrow> error + bool" where
  "py_and a b = and_then a (\<lambda>x. if x then b else Inr False)"

definition convert_way_to_feature ::
    "(json \<Rightarrow> string) \<Rightarrow> json \<Rightarrow> node_index \<Rightarrow> error + json option" where
  "convert_way_to_feature repr way nodes =
     and_then (way_coordinates way nodes) (\<lambda>coordinates.
       if length coordinates < 2 then Inr None
       else
         let is_closed = (length coordinates \<ge> 4 \<and> py_eq (hd coordinates) (last coordinates))
         in
         and_then (py_get way ''tags'' (JObj [])) (\<lambda>tags.
         and_then
           (py_and (Inr is_closed)
             (py_or (and_then (py_get tags ''area'' JNull) (\<lambda>a. Inr (py_eq a (JStr ''yes''))))
             (py_or (py_in ''building'' tags)
             (py_or (py_in ''landuse'' tags)
             (py_or (py_in ''natural'' tags)
             (py_or (py_in ''leisure'' tags)
                    (py_in ''amenity'' tags)))))))
           (\<lambda>is_area.
         and_then (py_get way ''id'' JNull) (\<lambda>way_id.
           Inr (Some
             (if is_area
              then geojson_feature (''way/'' @ py_str repr way_id) ''Polygon''
                     (JArr [JArr coordinates]) tags
              else geojson_feature (''way/'' @ py_str repr way_id) ''LineString''
                     (JArr coordinates) tags))))))"

subsection \<open>\<^verbatim>\<open>convert_overpass_to_geojson\<close>\<close>

text \<open>
  The body of the second loop: the feature, if any, that one element adds. An element
  that is neither a node nor a way adds nothing.
\<close>

definition element_feature ::
    "(json \<Rightarrow> string) \<Rightarrow> node_index \<Rightarrow> json \<Rightarrow> error + json option" where
  "element_feature repr nodes element =
     and_then (py_get element ''type'' JNull) (\<lambda>element_type.
       if py_eq element_type (JStr ''node'') then convert_node_to_feature repr element
       else if py_eq element_type (JStr ''way'') then convert_way_to_feature repr element nodes
       else Inr None)"

fun collect_features ::
    "(json \<Rightarrow> string) \<Rightarrow> node_index \<Rightarrow> json list \<Rightarrow> json list \<Rightarrow> error + json list" where
  "collect_features repr nodes [] features = Inr features"
| "collect_features repr nodes (element # rest) features =
     and_then (element_feature repr nodes element) (\<lambda>feature.
       collect_features repr nodes rest
         (case feature of None \<Rightarrow> features | Some f \<Rightarrow> features @ [f]))"

definition feature_collection :: "json list \<Rightarrow> json" where
  "feature_collection features =
     JObj [(''type'', JStr ''FeatureCollection''), (''features'', JArr features)]"

definition convert_overpass_to_geojson :: "(json \<Rightarrow> string) \<Rightarrow> json \<Rightarrow> error + json" where
  "convert_overpass_to_geojson repr osm_data =
     and_then (py_get osm_data ''elements'' (JArr [])) (\<lambda>elements.
     and_then (py_iter elements) (\<lambda>els.
     and_then (index_nodes els []) (\<lambda>nodes.
     and_then (collect_features repr nodes els []) (\<lambda>features.
       Inr (feature_collection features)))))"

subsection \<open>\<^verbatim>\<open>fetch_osm_geojson\<close>, from the parsed response on\<close>

text \<open>
  The request and the parsing of its body are outside the model: the function takes
  \<^verbatim>\<open>osm_data\<close>, the value of \<^verbatim>\<open>response.json()\<close>, and gives the GeoJSON
  dictionary that the source then serialises with \<^verbatim>\<open>json.dumps\<close>. Every failure
  leaves the function as a \<^verbatim>\<open>RuntimeError\<close>: the one it raises itself when
  \<^verbatim>\<open>"elements"\<close> is missing, or the one that wraps any other exception.
\<close>

datatype runtime_error =
    Invalid_response    \<comment> \<open>\<^verbatim>\<open>"Invalid Overpass API response: missing 'elements'"\<close>\<close>
  | Unexpected_error error    \<comment> \<open>\<^verbatim>\<open>f"Unexpected error fetching OSM data: {str(e)}"\<close>\<close>

definition fetch_osm_geojson :: "(json \<Rightarrow> string) \<Rightarrow> json \<Rightarrow> runtime_error + json" where
  "fetch_osm_geojson repr osm_data =
     (case py_in ''elements'' osm_data of
        Inl e \<Rightarrow> Inl (Unexpected_error e)
      | Inr present \<Rightarrow>
          if \<not> present then Inl Invalid_response
          else (case convert_overpass_to_geojson repr osm_data of
                  Inl e \<Rightarrow> Inl (Unexpected_error e)
                | Inr geojson \<Rightarrow> Inr geojson))"

section \<open>Vocabulary of the properties\<close>

text \<open>
  The tag condition of an area, in the words of the specification: the tag
  \<^verbatim>\<open>area\<close> is exactly \<^verbatim>\<open>"yes"\<close>, or one of the five keys is present,
  whatever its value.
\<close>

definition area_tags :: "(string \<times> json) list \<Rightarrow> bool" where
  "area_tags tags =
     (map_of tags ''area'' = Some (JStr ''yes'')
      \<or> (\<exists>k \<in> set [''building'', ''landuse'', ''natural'', ''leisure'', ''amenity''].
            map_of tags k \<noteq> None))"

text \<open>A printer for the examples, where no float, list or dictionary is ever formatted.\<close>

definition no_repr :: "json \<Rightarrow> string" where
  "no_repr v = ''?''"

section \<open>Basic facts about the operations\<close>

lemma and_then_Inl [simp]: "and_then (Inl e) f = Inl e"
  by (simp add: and_then_def)

lemma and_then_Inr [simp]: "and_then (Inr x) f = f x"
  by (simp add: and_then_def)

lemma py_get_JObj [simp]:
  "py_get (JObj kvs) key d = Inr (case map_of kvs key of None \<Rightarrow> d | Some v \<Rightarrow> v)"
  by (simp add: py_get_def)

lemma py_getitem_JObj [simp]:
  "py_getitem (JObj kvs) key = (case map_of kvs key of None \<Rightarrow> Inl KeyError | Some v \<Rightarrow> Inr v)"
  by (simp add: py_getitem_def)

lemma py_in_JObj [simp]: "py_in key (JObj kvs) = Inr (map_of kvs key \<noteq> None)"
  by (simp add: py_in_def)

lemma py_iter_JArr [simp]: "py_iter (JArr xs) = Inr xs"
  by (simp add: py_iter_def)

lemma py_eq_JStr [simp]: "py_eq v (JStr s) \<longleftrightarrow> v = JStr s"
  by (cases v) auto


lemma py_or_Inr [simp]: "py_or (Inr x) b = (if x then Inr True else b)"
  by (simp add: py_or_def)

lemma py_and_Inr [simp]: "py_and (Inr x) b = (if x then b else Inr False)"
  by (simp add: py_and_def)

lemma convert_way_dict_tags:
  assumes "way_coordinates (JObj way) nodes = Inr cs"
    and "2 \<le> length cs"
    and "(case map_of way ''tags'' of None \<Rightarrow> JObj [] | Some t \<Rightarrow> t) = JObj tags"
  shows "convert_way_to_feature repr (JObj way) nodes =
           Inr (Some
             (if 4 \<le> length cs \<and> py_eq (hd cs) (last cs) \<and> area_tags tags
              then geojson_feature
                     (''way/'' @ py_str repr (case map_of way ''id'' of None \<Rightarrow> JNull | Some i \<Rightarrow> i))
                     ''Polygon'' (JArr [JArr cs]) (JObj tags)
              else geojson_feature
                     (''way/'' @ py_str repr (case map_of way ''id'' of None \<Rightarrow> JNull | Some i \<Rightarrow> i))
                     ''LineString'' (JArr cs) (JObj tags)))"
  using assms
  by (auto simp: convert_way_to_feature_def Let_def area_tags_def split: option.splits)

lemma convert_way_open:
  assumes "way_coordinates (JObj way) nodes = Inr cs"
    and "2 \<le> length cs"
    and "\<not> (4 \<le> length cs \<and> py_eq (hd cs) (last cs))"
  shows "convert_way_to_feature repr (JObj way) nodes =
           Inr (Some (geojson_feature
                     (''way/'' @ py_str repr (case map_of way ''id'' of None \<Rightarrow> JNull | Some i \<Rightarrow> i))
                     ''LineString'' (JArr cs)
                     (case map_of way ''tags'' of None \<Rightarrow> JObj [] | Some t \<Rightarrow> t)))"
  using assms by (auto simp: convert_way_to_feature_def Let_def)

lemma convert_way_short:
  assumes "way_coordinates way nodes = Inr cs"
  shows "convert_way_to_feature repr way nodes = Inr None \<longleftrightarrow> length cs < 2"
  using assms
  by (auto simp: convert_way_to_feature_def Let_def and_then_def split: sum.splits)

lemma convert_way_polygon_closed:
  assumes "way_coordinates way nodes = Inr cs"
    and "convert_way_to_feature repr way nodes =
           Inr (Some (geojson_feature fid ''Polygon'' coords props))"
  shows "4 \<le> length cs \<and> py_eq (hd cs) (last cs)"
  using assms
  by (auto simp: convert_way_to_feature_def Let_def and_then_def py_and_def geojson_feature_def
           split: sum.splits if_splits)

lemma node_coordinates_concat:
  "\<forall>i \<in> set ids. hashable i \<Longrightarrow>
   node_coordinates ids nodes acc =
     Inr (acc @ concat (map (\<lambda>i. case nodes_find i nodes of None \<Rightarrow> []
                                   | Some d \<Rightarrow> [JArr [snd d, fst d]]) ids))"
  by (induction ids arbitrary: acc) (auto split: option.splits)

lemma geometry_coordinates_pairs:
  "list_all2 (\<lambda>g c. \<exists>kvs lat lon. g = JObj kvs \<and> map_of kvs ''lat'' = Some lat
                      \<and> map_of kvs ''lon'' = Some lon \<and> c = JArr [lon, lat]) gs cs
   \<Longrightarrow> geometry_coordinates gs = Inr cs"
  by (induction rule: list_all2_induct) auto

lemma collect_features_order:
  "collect_features repr nodes es acc = Inr out \<Longrightarrow>
   \<exists>fs. list_all2 (\<lambda>e f. element_feature repr nodes e = Inr f) es fs
      \<and> out = acc @ concat (map (\<lambda>f. case f of None \<Rightarrow> [] | Some x \<Rightarrow> [x]) fs)"
proof (induction es arbitrary: acc)
  case Nil
  then show ?case by simp
next
  case (Cons e es)
  from Cons.prems obtain f where f: "element_feature repr nodes e = Inr f"
    and rest: "collect_features repr nodes es
                 (case f of None \<Rightarrow> acc | Some x \<Rightarrow> acc @ [x]) = Inr out"
    by (auto simp: and_then_def split: sum.splits)
  from Cons.IH [OF rest] obtain fs where
    fs: "list_all2 (\<lambda>e f. element_feature repr nodes e = Inr f) es fs"
    and out: "out = (case f of None \<Rightarrow> acc | Some x \<Rightarrow> acc @ [x])
                  @ concat (map (\<lambda>f. case f of None \<Rightarrow> [] | Some x \<Rightarrow> [x]) fs)"
    by blast
  have "list_all2 (\<lambda>e f. element_feature repr nodes e = Inr f) (e # es) (f # fs)"
    using f fs by simp
  moreover have "out = acc @ concat (map (\<lambda>f. case f of None \<Rightarrow> [] | Some x \<Rightarrow> [x]) (f # fs))"
    using out by (cases f) simp_all
  ultimately show ?case by blast
qed



section \<open>The point converter\<close>

text \<open>
  C3. A node element whose latitude and longitude are both present and not null becomes
  a Point feature: its identifier is \<^verbatim>\<open>node/\<close> followed by the element's id, its
  coordinates are the pair (lon, lat), the input's order reversed, and its properties are
  the element's tags as they are, or the empty dictionary when the element has none.
  When the latitude or the longitude is missing or null, no feature is produced.
\<close>
theorem node_point_feature:
  "(map_of node ''lat'' = Some lat \<and> map_of node ''lon'' = Some lon
      \<and> lat \<noteq> JNull \<and> lon \<noteq> JNull \<longrightarrow>
    convert_node_to_feature repr (JObj node) =
      Inr (Some (geojson_feature
                   (''node/'' @ py_str repr (case map_of node ''id'' of None \<Rightarrow> JNull | Some i \<Rightarrow> i))
                   ''Point'' (JArr [lon, lat])
                   (case map_of node ''tags'' of None \<Rightarrow> JObj [] | Some t \<Rightarrow> t))))
   \<and> (map_of node ''lat'' \<in> {None, Some JNull} \<or> map_of node ''lon'' \<in> {None, Some JNull} \<longrightarrow>
      convert_node_to_feature repr (JObj node) = Inr None)"
  by (auto simp: convert_node_to_feature_def)

theorem node_point_feature_witness:
  "convert_node_to_feature no_repr
     (JObj [(''type'', JStr ''node''), (''id'', JInt 42), (''lat'', JFloat (71 / 2)),
            (''lon'', JInt 139), (''tags'', JObj [(''name'', JStr ''Tokyo'')])]) =
     Inr (Some (JObj [(''type'', JStr ''Feature''), (''id'', JStr ''node/42''),
                      (''geometry'', JObj [(''type'', JStr ''Point''),
                                           (''coordinates'', JArr [JInt 139, JFloat (71 / 2)])]),
                      (''properties'', JObj [(''name'', JStr ''Tokyo'')])]))
   \<and> convert_node_to_feature no_repr
        (JObj [(''type'', JStr ''node''), (''id'', JInt 42), (''lat'', JNull), (''lon'', JInt 139)]) =
        Inr None"
  using node_point_feature
          [of "[(''type'', JStr ''node''), (''id'', JInt 42), (''lat'', JFloat (71 / 2)),
                (''lon'', JInt 139), (''tags'', JObj [(''name'', JStr ''Tokyo'')])]"
              "JFloat (71 / 2)" "JInt 139" no_repr]
        node_point_feature
          [of "[(''type'', JStr ''node''), (''id'', JInt 42), (''lat'', JNull), (''lon'', JInt 139)]"
              JNull JNull no_repr]
  by (simp add: geojson_feature_def py_str_def str_int_def str_nat.simps)


section \<open>The path converter\<close>

text \<open>
  C4. A way is treated as closed exactly when its resolved coordinates are at least four
  and the first pair equals the last. Closedness shows in the result as the Polygon: a
  way converted to a Polygon has at least four coordinates with equal ends; a way with an
  area tag whose coordinates are at least four with equal ends is converted to a Polygon;
  and a way with exactly three coordinates becomes a LineString whatever its tags, even
  when the first coordinate equals the last.
\<close>
theorem way_closed_iff:
  assumes "way_coordinates (JObj way) nodes = Inr cs"
  shows "(convert_way_to_feature repr (JObj way) nodes =
            Inr (Some (geojson_feature fid ''Polygon'' coords props))
          \<longrightarrow> 4 \<le> length cs \<and> py_eq (hd cs) (last cs))
       \<and> (map_of way ''tags'' = Some (JObj tags) \<and> area_tags tags
            \<and> 4 \<le> length cs \<and> py_eq (hd cs) (last cs)
          \<longrightarrow> convert_way_to_feature repr (JObj way) nodes =
                Inr (Some (geojson_feature
                   (''way/'' @ py_str repr (case map_of way ''id'' of None \<Rightarrow> JNull | Some i \<Rightarrow> i))
                   ''Polygon'' (JArr [JArr cs]) (JObj tags))))
       \<and> (length cs = 3
          \<longrightarrow> convert_way_to_feature repr (JObj way) nodes =
                Inr (Some (geojson_feature
                   (''way/'' @ py_str repr (case map_of way ''id'' of None \<Rightarrow> JNull | Some i \<Rightarrow> i))
                   ''LineString'' (JArr cs)
                   (case map_of way ''tags'' of None \<Rightarrow> JObj [] | Some t \<Rightarrow> t))))"
proof -
  have only_closed: "4 \<le> length cs \<and> py_eq (hd cs) (last cs)"
    if "convert_way_to_feature repr (JObj way) nodes =
          Inr (Some (geojson_feature fid ''Polygon'' coords props))"
    using assms that by (rule convert_way_polygon_closed)
  have closed_area: "convert_way_to_feature repr (JObj way) nodes =
                Inr (Some (geojson_feature
                   (''way/'' @ py_str repr (case map_of way ''id'' of None \<Rightarrow> JNull | Some i \<Rightarrow> i))
                   ''Polygon'' (JArr [JArr cs]) (JObj tags)))"
    if a: "map_of way ''tags'' = Some (JObj tags) \<and> area_tags tags
            \<and> 4 \<le> length cs \<and> py_eq (hd cs) (last cs)"
  proof -
    from a have "2 \<le> length cs"
      and "(case map_of way ''tags'' of None \<Rightarrow> JObj [] | Some t \<Rightarrow> t) = JObj tags"
      by simp_all
    from convert_way_dict_tags [OF assms this] a show ?thesis by simp
  qed
  have three: "convert_way_to_feature repr (JObj way) nodes =
                Inr (Some (geojson_feature
                   (''way/'' @ py_str repr (case map_of way ''id'' of None \<Rightarrow> JNull | Some i \<Rightarrow> i))
                   ''LineString'' (JArr cs)
                   (case map_of way ''tags'' of None \<Rightarrow> JObj [] | Some t \<Rightarrow> t)))"
    if "length cs = 3"
  proof -
    from that have "2 \<le> length cs" and "\<not> (4 \<le> length cs \<and> py_eq (hd cs) (last cs))"
      by simp_all
    from convert_way_open [OF assms this] show ?thesis .
  qed
  from only_closed closed_area three show ?thesis by blast
qed

theorem way_closed_iff_witness:
  "convert_way_to_feature no_repr
     (JObj [(''type'', JStr ''way''), (''id'', JInt 8),
            (''geometry'', JArr [JObj [(''lat'', JInt 0), (''lon'', JInt 0)],
                                 JObj [(''lat'', JInt 0), (''lon'', JInt 1)],
                                 JObj [(''lat'', JInt 0), (''lon'', JInt 0)]]),
            (''tags'', JObj [(''building'', JStr ''yes'')])]) []
     = Inr (Some (JObj [(''type'', JStr ''Feature''), (''id'', JStr ''way/8''),
                        (''geometry'', JObj [(''type'', JStr ''LineString''),
                           (''coordinates'', JArr [JArr [JInt 0, JInt 0], JArr [JInt 1, JInt 0],
                                                   JArr [JInt 0, JInt 0]])]),
                        (''properties'', JObj [(''building'', JStr ''yes'')])]))
   \<and> convert_way_to_feature no_repr
     (JObj [(''type'', JStr ''way''), (''id'', JInt 9),
            (''geometry'', JArr [JObj [(''lat'', JInt 0), (''lon'', JInt 0)],
                                 JObj [(''lat'', JInt 0), (''lon'', JInt 1)],
                                 JObj [(''lat'', JInt 1), (''lon'', JInt 1)],
                                 JObj [(''lat'', JInt 0), (''lon'', JInt 0)]]),
            (''tags'', JObj [(''area'', JStr ''yes'')])]) []
     = Inr (Some (geojson_feature ''way/9'' ''Polygon''
                    (JArr [JArr [JArr [JInt 0, JInt 0], JArr [JInt 1, JInt 0],
                                 JArr [JInt 1, JInt 1], JArr [JInt 0, JInt 0]]])
                    (JObj [(''area'', JStr ''yes'')])))
   \<and> 4 \<le> length [JArr [JInt 0, JInt 0], JArr [JInt 1, JInt 0],
                   JArr [JInt 1, JInt 1], JArr [JInt 0, JInt 0]]
   \<and> py_eq (hd [JArr [JInt 0, JInt 0], JArr [JInt 1, JInt 0],
                 JArr [JInt 1, JInt 1], JArr [JInt 0, JInt 0]])
            (last [JArr [JInt 0, JInt 0], JArr [JInt 1, JInt 0],
                   JArr [JInt 1, JInt 1], JArr [JInt 0, JInt 0]])"
proof -
  let ?w8 = "[(''type'', JStr ''way''), (''id'', JInt 8),
            (''geometry'', JArr [JObj [(''lat'', JInt 0), (''lon'', JInt 0)],
                                 JObj [(''lat'', JInt 0), (''lon'', JInt 1)],
                                 JObj [(''lat'', JInt 0), (''lon'', JInt 0)]]),
            (''tags'', JObj [(''building'', JStr ''yes'')])]"
  let ?w9 = "[(''type'', JStr ''way''), (''id'', JInt 9),
            (''geometry'', JArr [JObj [(''lat'', JInt 0), (''lon'', JInt 0)],
                                 JObj [(''lat'', JInt 0), (''lon'', JInt 1)],
                                 JObj [(''lat'', JInt 1), (''lon'', JInt 1)],
                                 JObj [(''lat'', JInt 0), (''lon'', JInt 0)]]),
            (''tags'', JObj [(''area'', JStr ''yes'')])]"
  let ?c3 = "[JArr [JInt 0, JInt 0], JArr [JInt 1, JInt 0], JArr [JInt 0, JInt 0]]"
  let ?c4 = "[JArr [JInt 0, JInt 0], JArr [JInt 1, JInt 0],
              JArr [JInt 1, JInt 1], JArr [JInt 0, JInt 0]]"
  have c8: "way_coordinates (JObj ?w8) [] = Inr ?c3"
    by (simp add: way_coordinates_def)
  have c9: "way_coordinates (JObj ?w9) [] = Inr ?c4"
    by (simp add: way_coordinates_def)
  have three: "convert_way_to_feature no_repr (JObj ?w8) [] =
      Inr (Some (JObj [(''type'', JStr ''Feature''), (''id'', JStr ''way/8''),
                        (''geometry'', JObj [(''type'', JStr ''LineString''),
                           (''coordinates'', JArr ?c3)]),
                        (''properties'', JObj [(''building'', JStr ''yes'')])]))"
    using way_closed_iff [OF c8, where repr = no_repr]
    by (simp add: geojson_feature_def py_str_def str_int_def str_nat.simps)
  have four: "convert_way_to_feature no_repr (JObj ?w9) [] =
      Inr (Some (geojson_feature ''way/9'' ''Polygon'' (JArr [JArr ?c4])
                   (JObj [(''area'', JStr ''yes'')])))"
    using way_closed_iff [OF c9, where repr = no_repr and tags = "[(''area'', JStr ''yes'')]"]
    by (simp add: py_str_def str_int_def str_nat.simps area_tags_def)
  have ends: "4 \<le> length ?c4 \<and> py_eq (hd ?c4) (last ?c4)"
    using way_closed_iff [OF c9, where repr = no_repr and fid = "''way/9''"
            and coords = "JArr [JArr ?c4]" and props = "JObj [(''area'', JStr ''yes'')]"]
          four
    by blast
  from three four ends show ?thesis by blast
qed

text \<open>
  C5. A way with at least two resolved coordinates: when it is closed and its tags are
  a dictionary, it becomes a Polygon if the tag \<^verbatim>\<open>area\<close> is \<^verbatim>\<open>"yes"\<close> or one of
  the keys \<^verbatim>\<open>building\<close>, \<^verbatim>\<open>landuse\<close>, \<^verbatim>\<open>natural\<close>, \<^verbatim>\<open>leisure\<close>,
  \<^verbatim>\<open>amenity\<close> is present, and a LineString otherwise; when it is not closed it
  becomes a LineString. The Polygon's coordinates are the sequence wrapped in one more
  list (a single ring), the LineString's are the sequence itself.
\<close>
theorem way_area_or_line:
  assumes "way_coordinates (JObj way) nodes = Inr cs"
    and "2 \<le> length cs"
    and "props = (case map_of way ''tags'' of None \<Rightarrow> JObj [] | Some t \<Rightarrow> t)"
    and "fid = ''way/'' @ py_str repr (case map_of way ''id'' of None \<Rightarrow> JNull | Some i \<Rightarrow> i)"
  shows "(4 \<le> length cs \<and> py_eq (hd cs) (last cs) \<and> props = JObj tags \<longrightarrow>
           convert_way_to_feature repr (JObj way) nodes =
             Inr (Some (if area_tags tags
                        then geojson_feature fid ''Polygon'' (JArr [JArr cs]) props
                        else geojson_feature fid ''LineString'' (JArr cs) props)))
       \<and> (\<not> (4 \<le> length cs \<and> py_eq (hd cs) (last cs)) \<longrightarrow>
           convert_way_to_feature repr (JObj way) nodes =
             Inr (Some (geojson_feature fid ''LineString'' (JArr cs) props)))"
proof -
  have closed: "convert_way_to_feature repr (JObj way) nodes =
             Inr (Some (if area_tags tags
                        then geojson_feature fid ''Polygon'' (JArr [JArr cs]) props
                        else geojson_feature fid ''LineString'' (JArr cs) props))"
    if c: "4 \<le> length cs \<and> py_eq (hd cs) (last cs) \<and> props = JObj tags"
  proof -
    from c assms(3)
    have "(case map_of way ''tags'' of None \<Rightarrow> JObj [] | Some t \<Rightarrow> t) = JObj tags"
      by simp
    from convert_way_dict_tags [OF assms(1,2) this, of repr] c assms(4) show ?thesis
      by simp
  qed
  have opened: "convert_way_to_feature repr (JObj way) nodes =
             Inr (Some (geojson_feature fid ''LineString'' (JArr cs) props))"
    if "\<not> (4 \<le> length cs \<and> py_eq (hd cs) (last cs))"
    using convert_way_open [OF assms(1,2) that, of repr] assms(3,4) by simp
  from closed opened show ?thesis by blast
qed

theorem way_area_or_line_witness:
  "convert_way_to_feature no_repr
     (JObj [(''type'', JStr ''way''), (''id'', JInt 8),
            (''geometry'', JArr [JObj [(''lat'', JInt 0), (''lon'', JInt 0)],
                                 JObj [(''lat'', JInt 0), (''lon'', JInt 1)],
                                 JObj [(''lat'', JInt 1), (''lon'', JInt 1)],
                                 JObj [(''lat'', JInt 0), (''lon'', JInt 0)]]),
            (''tags'', JObj [(''building'', JStr ''yes'')])]) []
     = Inr (Some (JObj [(''type'', JStr ''Feature''), (''id'', JStr ''way/8''),
                        (''geometry'', JObj [(''type'', JStr ''Polygon''),
                           (''coordinates'', JArr [JArr [JArr [JInt 0, JInt 0], JArr [JInt 1, JInt 0],
                                                   JArr [JInt 1, JInt 1], JArr [JInt 0, JInt 0]]])]),
                        (''properties'', JObj [(''building'', JStr ''yes'')])]))
   \<and> convert_way_to_feature no_repr
     (JObj [(''type'', JStr ''way''), (''id'', JInt 9),
            (''geometry'', JArr [JObj [(''lat'', JInt 0), (''lon'', JInt 0)],
                                 JObj [(''lat'', JInt 0), (''lon'', JInt 1)],
                                 JObj [(''lat'', JInt 1), (''lon'', JInt 1)],
                                 JObj [(''lat'', JInt 0), (''lon'', JInt 0)]]),
            (''tags'', JObj [(''highway'', JStr ''residential'')])]) []
     = Inr (Some (JObj [(''type'', JStr ''Feature''), (''id'', JStr ''way/9''),
                        (''geometry'', JObj [(''type'', JStr ''LineString''),
                           (''coordinates'', JArr [JArr [JInt 0, JInt 0], JArr [JInt 1, JInt 0],
                                                   JArr [JInt 1, JInt 1], JArr [JInt 0, JInt 0]])]),
                        (''properties'', JObj [(''highway'', JStr ''residential'')])]))
   \<and> convert_way_to_feature no_repr
     (JObj [(''type'', JStr ''way''), (''id'', JInt 10),
            (''geometry'', JArr [JObj [(''lat'', JInt 0), (''lon'', JInt 0)],
                                 JObj [(''lat'', JInt 0), (''lon'', JInt 1)]]),
            (''tags'', JObj [(''building'', JStr ''yes'')])]) []
     = Inr (Some (JObj [(''type'', JStr ''Feature''), (''id'', JStr ''way/10''),
                        (''geometry'', JObj [(''type'', JStr ''LineString''),
                           (''coordinates'', JArr [JArr [JInt 0, JInt 0], JArr [JInt 1, JInt 0]])]),
                        (''properties'', JObj [(''building'', JStr ''yes'')])]))"
proof -
  let ?w10 = "[(''type'', JStr ''way''), (''id'', JInt 10),
            (''geometry'', JArr [JObj [(''lat'', JInt 0), (''lon'', JInt 0)],
                                 JObj [(''lat'', JInt 0), (''lon'', JInt 1)]]),
            (''tags'', JObj [(''building'', JStr ''yes'')])]"
  let ?c2 = "[JArr [JInt 0, JInt 0], JArr [JInt 1, JInt 0]]"
  have c10: "way_coordinates (JObj ?w10) [] = Inr ?c2"
    by (simp add: way_coordinates_def)
  have len2: "2 \<le> length ?c2" by simp
  have open_way: "convert_way_to_feature no_repr (JObj ?w10) []
     = Inr (Some (JObj [(''type'', JStr ''Feature''), (''id'', JStr ''way/10''),
                        (''geometry'', JObj [(''type'', JStr ''LineString''),
                           (''coordinates'', JArr ?c2)]),
                        (''properties'', JObj [(''building'', JStr ''yes'')])]))"
    using way_area_or_line [OF c10 len2 refl refl, of "[]" no_repr]
    by (simp add: geojson_feature_def py_str_def str_int_def str_nat.simps)
  let ?geom = "JArr [JObj [(''lat'', JInt 0), (''lon'', JInt 0)],
                     JObj [(''lat'', JInt 0), (''lon'', JInt 1)],
                     JObj [(''lat'', JInt 1), (''lon'', JInt 1)],
                     JObj [(''lat'', JInt 0), (''lon'', JInt 0)]]"
  let ?w8 = "[(''type'', JStr ''way''), (''id'', JInt 8), (''geometry'', ?geom),
              (''tags'', JObj [(''building'', JStr ''yes'')])]"
  let ?w9 = "[(''type'', JStr ''way''), (''id'', JInt 9), (''geometry'', ?geom),
              (''tags'', JObj [(''highway'', JStr ''residential'')])]"
  let ?cs = "[JArr [JInt 0, JInt 0], JArr [JInt 1, JInt 0],
              JArr [JInt 1, JInt 1], JArr [JInt 0, JInt 0]]"
  have c8: "way_coordinates (JObj ?w8) [] = Inr ?cs"
    by (simp add: way_coordinates_def)
  have c9: "way_coordinates (JObj ?w9) [] = Inr ?cs"
    by (simp add: way_coordinates_def)
  have len: "2 \<le> length ?cs" by simp
  from way_area_or_line [OF c8 len refl refl, of "[(''building'', JStr ''yes'')]" no_repr]
       way_area_or_line [OF c9 len refl refl, of "[(''highway'', JStr ''residential'')]" no_repr]
       open_way
  show ?thesis
    by (simp add: geojson_feature_def py_str_def str_int_def str_nat.simps area_tags_def)
qed

text \<open>
  C6. When the coordinates of a way resolve, the converter returns no feature exactly when
  they are fewer than two; in particular it returns no feature, and does not raise, for
  fewer than two.
\<close>
theorem way_short_no_feature:
  assumes "way_coordinates way nodes = Inr cs"
  shows "convert_way_to_feature repr way nodes = Inr None \<longleftrightarrow> length cs < 2"
  using assms by (rule convert_way_short)

theorem way_short_no_feature_witness:
  "convert_way_to_feature no_repr
     (JObj [(''type'', JStr ''way''), (''id'', JInt 5), (''nodes'', JArr [JInt 1, JInt 2])])
     [(JInt 1, JFloat (1 / 2), JFloat (3 / 2))] = Inr None"
proof -
  have "way_coordinates
     (JObj [(''type'', JStr ''way''), (''id'', JInt 5), (''nodes'', JArr [JInt 1, JInt 2])])
     [(JInt 1, JFloat (1 / 2), JFloat (3 / 2))] = Inr [JArr [JFloat (3 / 2), JFloat (1 / 2)]]"
    by (simp add: way_coordinates_def)
  from way_short_no_feature [OF this, of no_repr] show ?thesis by simp
qed

text \<open>
  C7. A way without embedded geometry takes its coordinates from the node lookup: each
  referenced identifier that the lookup knows adds its pair (lon, lat), and each one that
  it does not know adds nothing, so the others follow in their order.
\<close>
theorem way_nodes_skip_missing:
  assumes "map_of way ''geometry'' = None"
    and "map_of way ''nodes'' = Some (JArr ids)"
    and "\<forall>i \<in> set ids. hashable i"
  shows "way_coordinates (JObj way) nodes =
           Inr (concat (map (\<lambda>i. case nodes_find i nodes of None \<Rightarrow> []
                                   | Some d \<Rightarrow> [JArr [snd d, fst d]]) ids))"
  using assms node_coordinates_concat [of ids nodes "[]"]
  by (simp add: way_coordinates_def)

theorem way_nodes_skip_missing_witness:
  "way_coordinates
     (JObj [(''type'', JStr ''way''), (''id'', JInt 7),
            (''nodes'', JArr [JInt 1, JInt 2, JInt 3])])
     [(JInt 3, JInt 30, JInt 31), (JInt 1, JInt 10, JInt 11)]
     = Inr [JArr [JInt 11, JInt 10], JArr [JInt 31, JInt 30]]
   \<and> convert_overpass_to_geojson no_repr
       (JObj [(''elements'', JArr
          [JObj [(''type'', JStr ''node''), (''id'', JInt 1), (''lat'', JInt 10), (''lon'', JInt 11)],
           JObj [(''type'', JStr ''node''), (''id'', JInt 3), (''lat'', JInt 30), (''lon'', JInt 31)],
           JObj [(''type'', JStr ''way''), (''id'', JInt 7),
                 (''nodes'', JArr [JInt 1, JInt 2, JInt 3])]])])
     = Inr (JObj [(''type'', JStr ''FeatureCollection''), (''features'', JArr
          [JObj [(''type'', JStr ''Feature''), (''id'', JStr ''node/1''),
                 (''geometry'', JObj [(''type'', JStr ''Point''),
                                      (''coordinates'', JArr [JInt 11, JInt 10])]),
                 (''properties'', JObj [])],
           JObj [(''type'', JStr ''Feature''), (''id'', JStr ''node/3''),
                 (''geometry'', JObj [(''type'', JStr ''Point''),
                                      (''coordinates'', JArr [JInt 31, JInt 30])]),
                 (''properties'', JObj [])],
           JObj [(''type'', JStr ''Feature''), (''id'', JStr ''way/7''),
                 (''geometry'', JObj [(''type'', JStr ''LineString''),
                    (''coordinates'', JArr [JArr [JInt 11, JInt 10], JArr [JInt 31, JInt 30]])]),
                 (''properties'', JObj [])]])])"
proof -
  have a: "way_coordinates
     (JObj [(''type'', JStr ''way''), (''id'', JInt 7),
            (''nodes'', JArr [JInt 1, JInt 2, JInt 3])])
     [(JInt 3, JInt 30, JInt 31), (JInt 1, JInt 10, JInt 11)]
     = Inr [JArr [JInt 11, JInt 10], JArr [JInt 31, JInt 30]]"
    using way_nodes_skip_missing
            [of "[(''type'', JStr ''way''), (''id'', JInt 7),
                  (''nodes'', JArr [JInt 1, JInt 2, JInt 3])]"
                "[JInt 1, JInt 2, JInt 3]"
                "[(JInt 3, JInt 30, JInt 31), (JInt 1, JInt 10, JInt 11)]"]
    by simp
  show ?thesis
    by (rule conjI [OF a]) (simp add: convert_overpass_to_geojson_def element_feature_def convert_node_to_feature_def
           convert_way_to_feature_def way_coordinates_def feature_collection_def
           geojson_feature_def py_str_def str_int_def str_nat.simps Let_def)
qed

text \<open>
  C8. A way with embedded geometry, each entry of which has a latitude and a longitude,
  takes exactly these entries as its coordinates, each as the pair (lon, lat); neither
  the node lookup nor the way's own node references have any influence.
\<close>
theorem way_embedded_geometry:
  assumes "map_of way ''geometry'' = Some (JArr gs)"
    and "list_all2 (\<lambda>g c. \<exists>kvs lat lon. g = JObj kvs \<and> map_of kvs ''lat'' = Some lat
                      \<and> map_of kvs ''lon'' = Some lon \<and> c = JArr [lon, lat]) gs cs"
  shows "way_coordinates (JObj way) nodes = Inr cs"
  using assms(1) geometry_coordinates_pairs [OF assms(2)]
  by (simp add: way_coordinates_def)

theorem way_embedded_geometry_witness:
  "way_coordinates
     (JObj [(''type'', JStr ''way''), (''id'', JInt 7),
            (''nodes'', JArr [JInt 1, JInt 3]),
            (''geometry'', JArr [JObj [(''lat'', JInt 50), (''lon'', JInt 8)],
                                 JObj [(''lat'', JInt 51), (''lon'', JInt 9)]])])
     [(JInt 3, JInt 30, JInt 31), (JInt 1, JInt 10, JInt 11)]
     = Inr [JArr [JInt 8, JInt 50], JArr [JInt 9, JInt 51]]"
  by (rule way_embedded_geometry
            [where gs = "[JObj [(''lat'', JInt 50), (''lon'', JInt 8)],
                          JObj [(''lat'', JInt 51), (''lon'', JInt 9)]]"])
     simp_all


section \<open>The whole conversion\<close>

text \<open>
  C9. Whenever the conversion of a payload returns, its features are the features of the
  elements in the order of the elements: each element gives one feature or none, by
  itself and the node lookup, and the collection lists these results in element order.
\<close>
theorem features_in_element_order:
  assumes "map_of osm ''elements'' = Some (JArr es)"
    and "convert_overpass_to_geojson repr (JObj osm) = Inr out"
  shows "\<exists>nodes fs. index_nodes es [] = Inr nodes
           \<and> list_all2 (\<lambda>e f. element_feature repr nodes e = Inr f) es fs
           \<and> out = JObj [(''type'', JStr ''FeatureCollection''),
                         (''features'',
                          JArr (concat (map (\<lambda>f. case f of None \<Rightarrow> [] | Some x \<Rightarrow> [x]) fs)))]"
proof -
  from assms obtain nodes features where
    nodes: "index_nodes es [] = Inr nodes"
    and features: "collect_features repr nodes es [] = Inr features"
    and out: "out = JObj [(''type'', JStr ''FeatureCollection''), (''features'', JArr features)]"
    by (auto simp: convert_overpass_to_geojson_def feature_collection_def and_then_def
             split: sum.splits)
  from collect_features_order [OF features] obtain fs where
    "list_all2 (\<lambda>e f. element_feature repr nodes e = Inr f) es fs"
    "features = concat (map (\<lambda>f. case f of None \<Rightarrow> [] | Some x \<Rightarrow> [x]) fs)"
    by auto
  with nodes out show ?thesis by blast
qed

theorem features_in_element_order_witness:
  "convert_overpass_to_geojson no_repr
     (JObj [(''elements'', JArr
        [JObj [(''type'', JStr ''node''), (''id'', JInt 1), (''lat'', JInt 10), (''lon'', JInt 11)],
         JObj [(''type'', JStr ''way''), (''id'', JInt 2),
               (''geometry'', JArr [JObj [(''lat'', JInt 50), (''lon'', JInt 8)],
                                    JObj [(''lat'', JInt 51), (''lon'', JInt 9)]])],
         JObj [(''type'', JStr ''node''), (''id'', JInt 3), (''lat'', JInt 30), (''lon'', JInt 31)]])])
   = Inr (JObj [(''type'', JStr ''FeatureCollection''), (''features'', JArr
        [JObj [(''type'', JStr ''Feature''), (''id'', JStr ''node/1''),
               (''geometry'', JObj [(''type'', JStr ''Point''),
                                    (''coordinates'', JArr [JInt 11, JInt 10])]),
               (''properties'', JObj [])],
         JObj [(''type'', JStr ''Feature''), (''id'', JStr ''way/2''),
               (''geometry'', JObj [(''type'', JStr ''LineString''),
                  (''coordinates'', JArr [JArr [JInt 8, JInt 50], JArr [JInt 9, JInt 51]])]),
               (''properties'', JObj [])],
         JObj [(''type'', JStr ''Feature''), (''id'', JStr ''node/3''),
               (''geometry'', JObj [(''type'', JStr ''Point''),
                                    (''coordinates'', JArr [JInt 31, JInt 30])]),
               (''properties'', JObj [])]])])
   \<and> (\<exists>nodes fs.
        index_nodes
        [JObj [(''type'', JStr ''node''), (''id'', JInt 1), (''lat'', JInt 10), (''lon'', JInt 11)],
         JObj [(''type'', JStr ''way''), (''id'', JInt 2),
               (''geometry'', JArr [JObj [(''lat'', JInt 50), (''lon'', JInt 8)],
                                    JObj [(''lat'', JInt 51), (''lon'', JInt 9)]])],
         JObj [(''type'', JStr ''node''), (''id'', JInt 3), (''lat'', JInt 30), (''lon'', JInt 31)]]
          [] = Inr nodes
        \<and> list_all2 (\<lambda>e f. element_feature no_repr nodes e = Inr f)
        [JObj [(''type'', JStr ''node''), (''id'', JInt 1), (''lat'', JInt 10), (''lon'', JInt 11)],
         JObj [(''type'', JStr ''way''), (''id'', JInt 2),
               (''geometry'', JArr [JObj [(''lat'', JInt 50), (''lon'', JInt 8)],
                                    JObj [(''lat'', JInt 51), (''lon'', JInt 9)]])],
         JObj [(''type'', JStr ''node''), (''id'', JInt 3), (''lat'', JInt 30), (''lon'', JInt 31)]]
          fs
        \<and> JObj [(''type'', JStr ''FeatureCollection''), (''features'', JArr
        [JObj [(''type'', JStr ''Feature''), (''id'', JStr ''node/1''),
               (''geometry'', JObj [(''type'', JStr ''Point''),
                                    (''coordinates'', JArr [JInt 11, JInt 10])]),
               (''properties'', JObj [])],
         JObj [(''type'', JStr ''Feature''), (''id'', JStr ''way/2''),
               (''geometry'', JObj [(''type'', JStr ''LineString''),
                  (''coordinates'', JArr [JArr [JInt 8, JInt 50], JArr [JInt 9, JInt 51]])]),
               (''properties'', JObj [])],
         JObj [(''type'', JStr ''Feature''), (''id'', JStr ''node/3''),
               (''geometry'', JObj [(''type'', JStr ''Point''),
                                    (''coordinates'', JArr [JInt 31, JInt 30])]),
               (''properties'', JObj [])]])]
          = JObj [(''type'', JStr ''FeatureCollection''),
                  (''features'',
                   JArr (concat (map (\<lambda>f. case f of None \<Rightarrow> [] | Some x \<Rightarrow> [x]) fs)))])"
proof -
  let ?es = "[JObj [(''type'', JStr ''node''), (''id'', JInt 1), (''lat'', JInt 10), (''lon'', JInt 11)],
         JObj [(''type'', JStr ''way''), (''id'', JInt 2),
               (''geometry'', JArr [JObj [(''lat'', JInt 50), (''lon'', JInt 8)],
                                    JObj [(''lat'', JInt 51), (''lon'', JInt 9)]])],
         JObj [(''type'', JStr ''node''), (''id'', JInt 3), (''lat'', JInt 30), (''lon'', JInt 31)]]"
  have run: "convert_overpass_to_geojson no_repr (JObj [(''elements'', JArr ?es)])
   = Inr (JObj [(''type'', JStr ''FeatureCollection''), (''features'', JArr
        [JObj [(''type'', JStr ''Feature''), (''id'', JStr ''node/1''),
               (''geometry'', JObj [(''type'', JStr ''Point''),
                                    (''coordinates'', JArr [JInt 11, JInt 10])]),
               (''properties'', JObj [])],
         JObj [(''type'', JStr ''Feature''), (''id'', JStr ''way/2''),
               (''geometry'', JObj [(''type'', JStr ''LineString''),
                  (''coordinates'', JArr [JArr [JInt 8, JInt 50], JArr [JInt 9, JInt 51]])]),
               (''properties'', JObj [])],
         JObj [(''type'', JStr ''Feature''), (''id'', JStr ''node/3''),
               (''geometry'', JObj [(''type'', JStr ''Point''),
                                    (''coordinates'', JArr [JInt 31, JInt 30])]),
               (''properties'', JObj [])]])])"
    by (simp add: convert_overpass_to_geojson_def element_feature_def
          convert_node_to_feature_def convert_way_to_feature_def way_coordinates_def
          feature_collection_def geojson_feature_def
          py_str_def str_int_def str_nat.simps Let_def)
  have els: "map_of [(''elements'', JArr ?es)] ''elements'' = Some (JArr ?es)"
    by simp
  from run features_in_element_order [OF els run] show ?thesis
    by (rule conjI)
qed



section \<open>The missing element list\<close>

text \<open>
  Called on a payload without \<^verbatim>\<open>"elements"\<close>, the converter itself takes the list
  to be empty and returns an empty feature collection.
\<close>
theorem convert_missing_elements_counterexample:
  "convert_overpass_to_geojson no_repr (JObj []) =
     Inr (JObj [(''type'', JStr ''FeatureCollection''), (''features'', JArr [])])"
  by (simp add: convert_overpass_to_geojson_def feature_collection_def)

text \<open>
  C1. It is \<^verbatim>\<open>fetch_osm_geojson\<close> that rejects a payload without
  \<^verbatim>\<open>"elements"\<close>: for such a dictionary it fails with the error of an invalid
  response, where the converter alone would return the empty collection; and whenever it
  returns a result at all, the payload is a dictionary that has the key.
\<close>

theorem fetch_missing_elements:
  "(map_of osm ''elements'' = None \<longrightarrow>
      fetch_osm_geojson repr (JObj osm) = Inl Invalid_response
      \<and> convert_overpass_to_geojson repr (JObj osm) = Inr (feature_collection []))
   \<and> (fetch_osm_geojson repr osm_data = Inr geojson \<longrightarrow>
      (\<exists>kvs. osm_data = JObj kvs \<and> map_of kvs ''elements'' \<noteq> None))"
proof (intro conjI impI)
  assume "map_of osm ''elements'' = None"
  then show "fetch_osm_geojson repr (JObj osm) = Inl Invalid_response"
    by (simp add: fetch_osm_geojson_def)
next
  assume "map_of osm ''elements'' = None"
  then show "convert_overpass_to_geojson repr (JObj osm) = Inr (feature_collection [])"
    by (simp add: convert_overpass_to_geojson_def)
next
  assume "fetch_osm_geojson repr osm_data = Inr geojson"
  then show "\<exists>kvs. osm_data = JObj kvs \<and> map_of kvs ''elements'' \<noteq> None"
    by (cases osm_data)
       (auto simp: fetch_osm_geojson_def convert_overpass_to_geojson_def py_in_def py_get_def
             split: sum.splits if_splits)
qed

theorem fetch_missing_elements_witness:
  "fetch_osm_geojson no_repr (JObj [(''remark'', JStr ''runtime error'')]) = Inl Invalid_response
   \<and> convert_overpass_to_geojson no_repr (JObj [(''remark'', JStr ''runtime error'')]) =
       Inr (feature_collection [])
   \<and> fetch_osm_geojson no_repr (JObj [(''elements'', JArr [])]) = Inr (feature_collection [])
   \<and> (\<exists>kvs. JObj [(''elements'', JArr [])] = JObj kvs \<and> map_of kvs ''elements'' \<noteq> None)"
proof -
  have ok: "fetch_osm_geojson no_repr (JObj [(''elements'', JArr [])]) = Inr (feature_collection [])"
    by (simp add: fetch_osm_geojson_def convert_overpass_to_geojson_def)
  from fetch_missing_elements [of "[(''remark'', JStr ''runtime error'')]" no_repr
         "JObj [(''elements'', JArr [])]" "feature_collection []"] ok
  show ?thesis by simp
qed

text \<open>
  C2. The conversion does raise on a single element: a way whose embedded geometry has a
  null entry, or an entry without a longitude, ends the whole conversion with a
  \<^verbatim>\<open>TypeError\<close> or a \<^verbatim>\<open>KeyError\<close>, although the other entry is well formed.
\<close>
theorem convert_raises_on_geometry_entry:
  "convert_overpass_to_geojson no_repr
     (JObj [(''elements'', JArr
        [JObj [(''type'', JStr ''way''), (''id'', JInt 1),
               (''geometry'', JArr [JNull, JObj [(''lat'', JInt 50), (''lon'', JInt 8)]])]])])
     = Inl TypeError
   \<and> convert_overpass_to_geojson no_repr
     (JObj [(''elements'', JArr
        [JObj [(''type'', JStr ''way''), (''id'', JInt 1),
               (''geometry'', JArr [JObj [(''lat'', JInt 50)],
                                    JObj [(''lat'', JInt 50), (''lon'', JInt 8)]])]])])
     = Inl KeyError"
  by (simp add: convert_overpass_to_geojson_def element_feature_def convert_way_to_feature_def
        way_coordinates_def py_getitem_def)

text \<open>An element of another kind is passed over: a lone relation gives the empty collection.\<close>

lemma relation_only_payload:
  "convert_overpass_to_geojson repr
     (JObj [(''elements'', JArr [JObj [(''type'', JStr ''relation''), (''id'', JInt 12)]])])
     = Inr (feature_collection [])"
  by (simp add: convert_overpass_to_geojson_def element_feature_def)

end
